theory Spec2Isabelle
  imports Complex_Main
begin

section \<open>Values of the Python program\<close>

text \<open>
  The program is \<^verbatim>\<open>claude-api-logger/server.py\<close>: an HTTP handler that forwards a
  request to a fixed upstream, writes one line to a per-day log file and relays the
  upstream's answer.

  A Python \<^verbatim>\<open>str\<close> is modelled as a list of characters, one list element per
  character of the \<^verbatim>\<open>str\<close> (so \<open>take 500\<close> is the slice \<^verbatim>\<open>[:500]\<close>), and
  \<^verbatim>\<open>bytes\<close> as a list of bytes.
\<close>

type_synonym pystr = string
type_synonym bytes = string

text \<open>What \<^verbatim>\<open>json.loads\<close> returns: dict, list, str, int, float, bool or None.\<close>

datatype pyfloat = Finite rat | PosInf | NegInf | NaN

datatype json =
    JNull
  | JBool bool
  | JInt int
  | JFloat pyfloat
  | JStr pystr
  | JArr "json list"
  | JObj "(pystr \<times> json) list"

text \<open>The exceptions the handler's own expressions can raise.\<close>

datatype py_exception =
    JSONDecodeError
  | UnicodeDecodeError
  | ValueError
  | AttributeError
  | TypeError
  | KeyError
  | IndexError

text \<open>Truth value of an object, as \<^verbatim>\<open>if messages:\<close> tests it.\<close>

fun truthy :: "json \<Rightarrow> bool" where
  "truthy JNull = False"
| "truthy (JBool b) = b"
| "truthy (JInt n) = (n \<noteq> 0)"
| "truthy (JFloat f) = (f \<noteq> Finite 0)"
| "truthy (JStr s) = (s \<noteq> [])"
| "truthy (JArr xs) = (xs \<noteq> [])"
| "truthy (JObj kvs) = (kvs \<noteq> [])"

text \<open>
  \<^verbatim>\<open>x.get(key, default)\<close>: only a dict has the method; on any other value the
  attribute lookup raises AttributeError.
\<close>

fun py_get :: "json \<Rightarrow> pystr \<Rightarrow> json \<Rightarrow> py_exception + json" where
  "py_get (JObj kvs) key dflt = Inr (case map_of kvs key of None \<Rightarrow> dflt | Some v \<Rightarrow> v)"
| "py_get _ key dflt = Inl AttributeError"

text \<open>
  \<^verbatim>\<open>x[-1]\<close>: the last element of a list, the last character of a str, a key lookup
  on a dict (whose keys are strings, so \<open>-1\<close> is never one), and a TypeError on the
  values that cannot be subscripted.
\<close>

fun subscript_last :: "json \<Rightarrow> py_exception + json" where
  "subscript_last (JArr xs) = (if xs = [] then Inl IndexError else Inr (last xs))"
| "subscript_last (JStr s) = (if s = [] then Inl IndexError else Inr (JStr [last s]))"
| "subscript_last (JObj kvs) = Inl KeyError"
| "subscript_last _ = Inl TypeError"

text \<open>
  The comprehension
  \<^verbatim>\<open>[c.get("text", "") for c in content if c.get("type") == "text"]\<close>,
  element by element: the first element on which \<^verbatim>\<open>.get\<close> raises ends it.
\<close>

fun text_parts :: "json list \<Rightarrow> py_exception + json list" where
  "text_parts [] = Inr []"
| "text_parts (c # cs) =
     (case py_get c ''type'' JNull of
        Inl e \<Rightarrow> Inl e
      | Inr t \<Rightarrow>
          if t = JStr ''text'' then
            (case py_get c ''text'' (JStr []) of
               Inl e \<Rightarrow> Inl e
             | Inr v \<Rightarrow> (case text_parts cs of Inl e \<Rightarrow> Inl e | Inr vs \<Rightarrow> Inr (v # vs)))
          else text_parts cs)"

text \<open>\<^verbatim>\<open>" ".join(parts)\<close>: every item must be a str, else TypeError.\<close>

fun join_strs :: "pystr \<Rightarrow> pystr list \<Rightarrow> pystr" where
  "join_strs sep [] = []"
| "join_strs sep [s] = s"
| "join_strs sep (s # t # ss) = s @ sep @ join_strs sep (t # ss)"

fun the_strs :: "json list \<Rightarrow> py_exception + pystr list" where
  "the_strs [] = Inr []"
| "the_strs (JStr s # vs) = (case the_strs vs of Inl e \<Rightarrow> Inl e | Inr ss \<Rightarrow> Inr (s # ss))"
| "the_strs (_ # vs) = Inl TypeError"

definition py_join :: "pystr \<Rightarrow> json list \<Rightarrow> py_exception + pystr" where
  "py_join sep parts = (case the_strs parts of Inl e \<Rightarrow> Inl e | Inr ss \<Rightarrow> Inr (join_strs sep ss))"

text \<open>Both previews: the comprehension, the join, the slice \<^verbatim>\<open>[:500]\<close>.\<close>

definition blocks_preview :: "json list \<Rightarrow> py_exception + pystr" where
  "blocks_preview content =
     (case text_parts content of
        Inl e \<Rightarrow> Inl e
      | Inr parts \<Rightarrow> (case py_join '' '' parts of Inl e \<Rightarrow> Inl e | Inr s \<Rightarrow> Inr (take 500 s)))"

section \<open>Configuration, clock and log file\<close>

text \<open>
  The module-level constants. \<^verbatim>\<open>LOG_DIR\<close>, \<^verbatim>\<open>PROJECT_NAME\<close> come from the
  environment variables; \<^verbatim>\<open>ANTHROPIC_API_URL\<close> is fixed.
\<close>

record config =
  LOG_DIR :: pystr
  PROJECT_NAME :: pystr

definition ANTHROPIC_API_URL :: pystr where
  "ANTHROPIC_API_URL = ''https://api.anthropic.com''"

text \<open>
  A \<^verbatim>\<open>pathlib.Path\<close> is kept as the expression that builds it: \<open>Path s\<close> is
  \<^verbatim>\<open>Path(s)\<close> and \<open>Join p s\<close> is \<^verbatim>\<open>p / s\<close>.
\<close>

datatype pypath = Path pystr | Join pypath pystr

definition PROJECT_LOG_DIR :: "config \<Rightarrow> pypath" where
  "PROJECT_LOG_DIR cfg = Join (Path (LOG_DIR cfg)) (PROJECT_NAME cfg)"

text \<open>
  A reading of \<^verbatim>\<open>datetime.now()\<close>. The type \<^verbatim>\<open>datetime\<close> keeps
  \<open>1 \<le> year \<le> 9999\<close>, \<open>1 \<le> month \<le> 12\<close>, \<open>1 \<le> day \<le> 31\<close>,
  \<open>hour < 24\<close>, \<open>minute < 60\<close>, \<open>second < 60\<close>, \<open>microsecond < 1000000\<close>.
\<close>

record datetime =
  year :: nat
  month :: nat
  day :: nat
  hour :: nat
  minute :: nat
  second :: nat
  microsecond :: nat


definition digit :: "nat \<Rightarrow> char" where
  "digit n = char_of (48 + n)"

definition pad2 :: "nat \<Rightarrow> pystr" where
  "pad2 n = [digit (n div 10 mod 10), digit (n mod 10)]"

definition pad4 :: "nat \<Rightarrow> pystr" where
  "pad4 n = [digit (n div 1000 mod 10), digit (n div 100 mod 10),
             digit (n div 10 mod 10), digit (n mod 10)]"

definition pad6 :: "nat \<Rightarrow> pystr" where
  "pad6 n = [digit (n div 100000 mod 10), digit (n div 10000 mod 10),
             digit (n div 1000 mod 10), digit (n div 100 mod 10),
             digit (n div 10 mod 10), digit (n mod 10)]"

text \<open>\<^verbatim>\<open>d.strftime("%Y-%m-%d")\<close>: four, two and two decimal digits, zero padded.\<close>

definition strftime_Ymd :: "datetime \<Rightarrow> pystr" where
  "strftime_Ymd d = pad4 (year d) @ ''-'' @ pad2 (month d) @ ''-'' @ pad2 (day d)"

text \<open>\<^verbatim>\<open>d.isoformat()\<close>: the fraction is left out when the microsecond is 0.\<close>

definition isoformat :: "datetime \<Rightarrow> pystr" where
  "isoformat d =
     strftime_Ymd d @ ''T'' @ pad2 (hour d) @ '':'' @ pad2 (minute d) @ '':'' @ pad2 (second d)
     @ (if microsecond d = 0 then [] else ''.'' @ pad6 (microsecond d))"

text \<open>\<^verbatim>\<open>str(n)\<close> of a natural number, as \<^verbatim>\<open>send_header\<close> formats \<^verbatim>\<open>len(...)\<close>.\<close>

fun str_nat :: "nat \<Rightarrow> pystr" where
  "str_nat n = (if n < 10 then [digit n] else str_nat (n div 10) @ [digit (n mod 10)])"

declare str_nat.simps [simp del]

subsection \<open>What the program calls but does not define\<close>

text \<open>
  The library functions and the outside world are parameters of the model:
  \<^item> \<open>loads\<close> is \<^verbatim>\<open>json.loads\<close> on the request's bytes (\<open>Inl\<close> the exception raised);
  \<^item> \<open>dumps\<close> is \<^verbatim>\<open>json.dumps\<close>;
  \<^item> \<open>int_of_str\<close> is \<^verbatim>\<open>int(s)\<close> on a str (\<open>Inl ValueError\<close> when it raises);
  \<^item> \<open>send\<close> is \<^verbatim>\<open>httpx.Client(timeout=300.0).request(...)\<close>: the response, or
    \<open>Inl msg\<close> when it raises an exception \<open>e\<close> with \<^verbatim>\<open>str(e) = msg\<close>;
  \<^item> \<open>write_outcome p\<close> is what the disk does with an append to \<open>p\<close>, see below;
  \<^item> \<open>elapsed_ms t0 t1\<close> is \<^verbatim>\<open>int((t1 - t0) * 1000)\<close> as Python computes it on
    the two readings of \<^verbatim>\<open>time.time()\<close>, in double precision: the subtraction and
    the product round, so the value is not computed here on the exact numbers.
\<close>

text \<open>
  An append either goes through, or \<^verbatim>\<open>open(log_file, "a")\<close> raises (the file is
  not touched and not created), or the file is open, and created when it was absent, and
  the write or the closing flush raises after \<open>n\<close> characters of the text reached the
  file. \<open>msg\<close> is \<^verbatim>\<open>str(e)\<close> of the exception.
\<close>

datatype outcome = Written | Open_Failed pystr | Write_Failed nat pystr

record upstream_request =
  up_method :: pystr
  up_url :: pystr
  up_headers :: "(pystr \<times> pystr) list"
  up_content :: bytes

text \<open>
  An \<^verbatim>\<open>httpx.Response\<close>, by what the handler reads of it: \<^verbatim>\<open>status_code\<close>,
  \<^verbatim>\<open>headers.items()\<close>, \<^verbatim>\<open>content\<close>, \<^verbatim>\<open>text\<close> (the field
  \<open>text_of\<close>) and the outcome of \<^verbatim>\<open>json()\<close> (the field \<open>json_result\<close>).
  The field \<open>raw_body\<close> is the body as the upstream sent it, which the handler never
  reads: \<^verbatim>\<open>content\<close> is that body after the client has undone the
  Content-Encoding of the answer (gzip, deflate, br, zstd), so the two are the same bytes
  only when the client decoded nothing.
\<close>

record response =
  status_code :: int
  header_items :: "(pystr \<times> pystr) list"
  raw_body :: bytes
  content :: bytes
  text_of :: pystr
  json_result :: "py_exception + json"

record env =
  loads :: "bytes \<Rightarrow> py_exception + json"
  dumps :: "json \<Rightarrow> pystr"
  int_of_str :: "pystr \<Rightarrow> py_exception + int"
  send :: "upstream_request \<Rightarrow> pystr + response"
  write_outcome :: "pypath \<Rightarrow> outcome"
  elapsed_ms :: "rat \<Rightarrow> rat \<Rightarrow> int"

text \<open>
  The four clock readings of one call of \<^verbatim>\<open>proxy_request\<close>, in program order:
  the two of \<^verbatim>\<open>time.time()\<close> (a double is a rational number) and the two of
  \<^verbatim>\<open>datetime.now()\<close>.
\<close>

record clock =
  start_time :: rat
  end_time :: rat
  entry_now :: datetime
  file_now :: datetime

subsection \<open>The log writer\<close>

definition get_log_file :: "config \<Rightarrow> datetime \<Rightarrow> pypath" where
  "get_log_file cfg now =
     (let today = strftime_Ymd now
      in Join (PROJECT_LOG_DIR cfg) (''api-log-'' @ today @ ''.jsonl''))"

text \<open>
  The files, by path: \<open>None\<close> is a file that does not exist. Opening with mode
  \<^verbatim>\<open>"a"\<close> creates it; the write adds the text at the end.
\<close>

type_synonym files = "pypath \<Rightarrow> pystr option"

definition append_text :: "files \<Rightarrow> pypath \<Rightarrow> pystr \<Rightarrow> files" where
  "append_text fs p s = fs(p \<mapsto> (case fs p of None \<Rightarrow> [] | Some old \<Rightarrow> old) @ s)"

text \<open>
  \<^verbatim>\<open>log_request\<close>: the message of the exception it raises, if any, and the files
  it leaves. The text written is the serialised record and one line feed, the
  character 10. A write that raises leaves what reached the file before the exception.
\<close>

definition log_request ::
  "env \<Rightarrow> config \<Rightarrow> datetime \<Rightarrow> json \<Rightarrow> files \<Rightarrow> pystr option \<times> files" where
  "log_request ev cfg now data fs =
     (let log_file = get_log_file cfg now;
          line = dumps ev data @ [CHR 0x0A]
      in case write_outcome ev log_file of
           Open_Failed msg \<Rightarrow> (Some msg, fs)
         | Write_Failed n msg \<Rightarrow> (Some msg, append_text fs log_file (take n line))
         | Written \<Rightarrow> (None, append_text fs log_file line))"

section \<open>The forwarding handler\<close>

text \<open>
  The inbound request as the handler sees it: \<^verbatim>\<open>self.path\<close> and
  \<^verbatim>\<open>self.headers\<close> (the header lines in order). The method is the argument of
  \<^verbatim>\<open>proxy_request\<close>.
\<close>

record request =
  path :: pystr
  headers :: "(pystr \<times> pystr) list"

text \<open>
  What a call changes: the files, the bytes not yet read from \<^verbatim>\<open>self.rfile\<close>, and
  the calls made to the upstream so far.
\<close>

record world =
  files :: files
  rfile :: bytes
  upstream_calls :: "upstream_request list"

text \<open>
  What the handler writes to the caller: the status of \<^verbatim>\<open>send_response\<close>, the
  headers of its \<^verbatim>\<open>send_header\<close> calls in order, and the bytes written to
  \<^verbatim>\<open>self.wfile\<close>.
\<close>

record http_response =
  status :: int
  sent_headers :: "(pystr \<times> pystr) list"
  body :: bytes

text \<open>
  A call either answers the caller or ends with an exception that leaves
  \<^verbatim>\<open>proxy_request\<close>: then nothing was written to the caller.
\<close>

datatype handler_result = Responded http_response | Raised py_exception

text \<open>\<^verbatim>\<open>s.lower()\<close> on the characters below 256.\<close>

definition lower_char :: "char \<Rightarrow> char" where
  "lower_char c =
     (let n = (of_char c :: nat)
      in if (65 \<le> n \<and> n \<le> 90) \<or> (192 \<le> n \<and> n \<le> 222 \<and> n \<noteq> 215)
         then char_of (n + 32) else c)"

definition lower :: "pystr \<Rightarrow> pystr" where
  "lower s = map lower_char s"

text \<open>\<^verbatim>\<open>self.headers.get(name, default)\<close>: the first header of that name, any case.\<close>

fun headers_get :: "(pystr \<times> pystr) list \<Rightarrow> pystr \<Rightarrow> pystr option" where
  "headers_get [] name = None"
| "headers_get ((k, v) # hs) name =
     (if lower k = lower name then Some v else headers_get hs name)"

text \<open>\<^verbatim>\<open>d[k] = v\<close> on a dict kept in insertion order.\<close>

fun dict_set :: "('k \<times> 'v) list \<Rightarrow> 'k \<Rightarrow> 'v \<Rightarrow> ('k \<times> 'v) list" where
  "dict_set [] k v = [(k, v)]"
| "dict_set ((k', v') # d) k v =
     (if k' = k then (k', v) # d else (k', v') # dict_set d k v)"

text \<open>The loop that copies the inbound headers (lines 117 to 120).\<close>

definition copy_headers :: "(pystr \<times> pystr) list \<Rightarrow> (pystr \<times> pystr) list" where
  "copy_headers hs =
     foldl (\<lambda>d (key, val). if lower key \<notin> set [''host'', ''content-length'']
                            then dict_set d key val else d) [] hs"

text \<open>\<^verbatim>\<open>s.encode()\<close>: UTF-8, one byte below 128 and two bytes from 128 to 255.\<close>

definition utf8_char :: "char \<Rightarrow> bytes" where
  "utf8_char c =
     (let n = (of_char c :: nat)
      in if n < 128 then [c] else [char_of (192 + n div 64), char_of (128 + n mod 64)])"

definition encode :: "pystr \<Rightarrow> bytes" where
  "encode s = concat (map utf8_char s)"

text \<open>
  Lines 89 and 90: the Content-Length, then the read. The result is the body and the
  bytes left unread.
\<close>

definition read_body :: "env \<Rightarrow> request \<Rightarrow> bytes \<Rightarrow> py_exception + (bytes \<times> bytes)" where
  "read_body ev req rf =
     (case (case headers_get (headers req) ''Content-Length'' of
              None \<Rightarrow> Inr 0
            | Some v \<Rightarrow> int_of_str ev v) of
        Inl e \<Rightarrow> Inl e
      | Inr content_length \<Rightarrow>
          if content_length > 0
          then Inr (take (nat content_length) rf, drop (nat content_length) rf)
          else Inr ([], rf))"

text \<open>
  Lines 98 to 109, the body of the \<^verbatim>\<open>try\<close>: the result is
  \<open>(model, prompt_preview)\<close>, or the exception raised.
\<close>

definition request_fields :: "env \<Rightarrow> bytes \<Rightarrow> py_exception + (json \<times> pystr)" where
  "request_fields ev request_body =
     (case loads ev request_body of
        Inl e \<Rightarrow> Inl e
      | Inr request_data \<Rightarrow>
     (case py_get request_data ''model'' (JStr []) of
        Inl e \<Rightarrow> Inl e
      | Inr model \<Rightarrow>
     (case py_get request_data ''messages'' (JArr []) of
        Inl e \<Rightarrow> Inl e
      | Inr messages \<Rightarrow>
          if truthy messages then
            (case subscript_last messages of
               Inl e \<Rightarrow> Inl e
             | Inr last_msg \<Rightarrow>
            (case py_get last_msg ''content'' (JStr []) of
               Inl e \<Rightarrow> Inl e
             | Inr cont \<Rightarrow>
                 (case cont of
                    JStr s \<Rightarrow> Inr (model, take 500 s)
                  | JArr blocks \<Rightarrow>
                      (case blocks_preview blocks of
                         Inl e \<Rightarrow> Inl e
                       | Inr s \<Rightarrow> Inr (model, s))
                  | _ \<Rightarrow> Inr (model, []))))
          else Inr (model, []))))"

text \<open>
  Lines 93 to 111: the defaults, the test \<^verbatim>\<open>if request_body:\<close> and the handler
  \<^verbatim>\<open>except json.JSONDecodeError: pass\<close>, which catches that exception only. Only
  \<^verbatim>\<open>json.loads\<close> raises it, before \<open>model\<close> is assigned, so the defaults stand.
\<close>

definition parse_request :: "env \<Rightarrow> bytes \<Rightarrow> py_exception + (json \<times> pystr)" where
  "parse_request ev request_body =
     (if request_body \<noteq> [] then
        (case request_fields ev request_body of
           Inl e \<Rightarrow> if e = JSONDecodeError then Inr (JStr [], []) else Inl e
         | Inr r \<Rightarrow> Inr r)
      else Inr (JStr [], []))"

text \<open>
  Lines 135 to 150: the result is \<open>(response_preview, input_tokens, output_tokens)\<close>.
  The bare \<^verbatim>\<open>except:\<close> catches every exception and sets the preview only: what
  was assigned before the exception stays.
\<close>

definition raw_preview :: "response \<Rightarrow> pystr" where
  "raw_preview resp = (if text_of resp \<noteq> [] then take 500 (text_of resp) else [])"

definition parse_response :: "response \<Rightarrow> pystr \<times> json \<times> json" where
  "parse_response resp =
     (case json_result resp of
        Inl e \<Rightarrow> (raw_preview resp, JInt 0, JInt 0)
      | Inr response_data \<Rightarrow>
     (case py_get response_data ''usage'' (JObj []) of
        Inl e \<Rightarrow> (raw_preview resp, JInt 0, JInt 0)
      | Inr usage \<Rightarrow>
     (case py_get usage ''input_tokens'' (JInt 0) of
        Inl e \<Rightarrow> (raw_preview resp, JInt 0, JInt 0)
      | Inr input_tokens \<Rightarrow>
     (case py_get usage ''output_tokens'' (JInt 0) of
        Inl e \<Rightarrow> (raw_preview resp, input_tokens, JInt 0)
      | Inr output_tokens \<Rightarrow>
     (case py_get response_data ''content'' (JArr []) of
        Inl e \<Rightarrow> (raw_preview resp, input_tokens, output_tokens)
      | Inr cont \<Rightarrow>
          (case cont of
             JArr blocks \<Rightarrow>
               if truthy cont then
                 (case blocks_preview blocks of
                    Inl e \<Rightarrow> (raw_preview resp, input_tokens, output_tokens)
                  | Inr s \<Rightarrow> (s, input_tokens, output_tokens))
               else ([], input_tokens, output_tokens)
           | _ \<Rightarrow> ([], input_tokens, output_tokens)))))))"

text \<open>Line 132 and lines 135 to 164: the duration, the response parse and the entry.\<close>

definition log_entry ::
  "env \<Rightarrow> config \<Rightarrow> clock \<Rightarrow> request \<Rightarrow> json \<Rightarrow> pystr \<Rightarrow> response \<Rightarrow> json" where
  "log_entry ev cfg clk req model prompt_preview resp =
     (let duration_ms = elapsed_ms ev (start_time clk) (end_time clk);
          (response_preview, input_tokens, output_tokens) = parse_response resp
      in JObj [(''timestamp'', JStr (isoformat (entry_now clk))),
               (''project'', JStr (PROJECT_NAME cfg)),
               (''model'', model),
               (''prompt_preview'', JStr prompt_preview),
               (''response_preview'', JStr response_preview),
               (''input_tokens'', input_tokens),
               (''output_tokens'', output_tokens),
               (''duration_ms'', JInt duration_ms),
               (''status_code'', JInt (status_code resp)),
               (''path'', JStr (path req))])"

text \<open>Lines 170 to 176: the answer relayed to the caller.\<close>

definition relay :: "response \<Rightarrow> http_response" where
  "relay resp =
     \<lparr>status = status_code resp,
      sent_headers =
        filter (\<lambda>(key, val). lower key \<notin>
                  set [''transfer-encoding'', ''content-encoding'', ''content-length''])
               (header_items resp)
        @ [(''Content-Length'', str_nat (length (content resp)))],
      body = content resp\<rparr>"

text \<open>Lines 180 to 184: the answer of the \<^verbatim>\<open>except Exception as e\<close> handler.\<close>

definition error_response :: "env \<Rightarrow> pystr \<Rightarrow> http_response" where
  "error_response ev msg =
     \<lparr>status = 502,
      sent_headers = [(''Content-Type'', ''application/json'')],
      body = encode (dumps ev (JObj [(''error'', JStr msg)]))\<rparr>"

text \<open>Lines 113 to 120 and 125 to 130: the call handed to the HTTP client.\<close>

definition upstream_call :: "pystr \<Rightarrow> request \<Rightarrow> bytes \<Rightarrow> upstream_request" where
  "upstream_call method req request_body =
     (let target_url = ANTHROPIC_API_URL @ path req;
          hdrs = copy_headers (headers req)
      in \<lparr>up_method = method, up_url = target_url,
          up_headers = hdrs, up_content = request_body\<rparr>)"

text \<open>
  \<^verbatim>\<open>proxy_request\<close>. The reading and the request parse stand before the
  \<^verbatim>\<open>try\<close> of line 123, so an exception there leaves the function. The upstream
  call, the response parse, the log write and the relay stand inside it, and
  \<^verbatim>\<open>except Exception\<close> turns an exception of any of them into the 502 answer;
  what a failed log write had put in the file by then stays there.
  The two \<^verbatim>\<open>print\<close> calls are left out.
\<close>

definition proxy_request ::
  "env \<Rightarrow> config \<Rightarrow> clock \<Rightarrow> pystr \<Rightarrow> request \<Rightarrow> world \<Rightarrow> handler_result \<times> world" where
  "proxy_request ev cfg clk method req w =
     (case read_body ev req (rfile w) of
        Inl e \<Rightarrow> (Raised e, w)
      | Inr (request_body, rest) \<Rightarrow>
          (let w1 = w\<lparr>rfile := rest\<rparr>
           in case parse_request ev request_body of
                Inl e \<Rightarrow> (Raised e, w1)
              | Inr (model, prompt_preview) \<Rightarrow>
                  (let call = upstream_call method req request_body;
                       w2 = w1\<lparr>upstream_calls := upstream_calls w1 @ [call]\<rparr>
                   in case send ev call of
                        Inl msg \<Rightarrow> (Responded (error_response ev msg), w2)
                      | Inr resp \<Rightarrow>
                          (case log_request ev cfg (file_now clk)
                                  (log_entry ev cfg clk req model prompt_preview resp)
                                  (files w2) of
                             (Some msg, fs) \<Rightarrow>
                               (Responded (error_response ev msg), w2\<lparr>files := fs\<rparr>)
                           | (None, fs) \<Rightarrow> (Responded (relay resp), w2\<lparr>files := fs\<rparr>)))))"

definition do_GET :: "env \<Rightarrow> config \<Rightarrow> clock \<Rightarrow> request \<Rightarrow> world \<Rightarrow> handler_result \<times> world" where
  "do_GET ev cfg clk req w =
     (if path req = ''/health'' then
        (Responded \<lparr>status = 200,
                    sent_headers = [(''Content-Type'', ''application/json'')],
                    body = encode (dumps ev (JObj [(''status'', JStr ''ok''),
                                                   (''project'', JStr (PROJECT_NAME cfg))]))\<rparr>, w)
      else proxy_request ev cfg clk ''GET'' req w)"

definition do_POST :: "env \<Rightarrow> config \<Rightarrow> clock \<Rightarrow> request \<Rightarrow> world \<Rightarrow> handler_result \<times> world" where
  "do_POST ev cfg clk req w = proxy_request ev cfg clk ''POST'' req w"

section \<open>The preview rule as the specification words it\<close>

text \<open>
  The specification's extraction rule, to compare with \<open>blocks_preview\<close>: keep the
  blocks whose type equals "text", take their text fields, join them with a single space
  and truncate to 500 characters. A text block without a text field counts as the empty
  string, as the default of \<^verbatim>\<open>c.get("text", "")\<close> makes it.
\<close>

definition is_text_block :: "json \<Rightarrow> bool" where
  "is_text_block c =
     (case c of JObj kvs \<Rightarrow> map_of kvs ''type'' = Some (JStr ''text'') | _ \<Rightarrow> False)"

definition text_field :: "json \<Rightarrow> pystr" where
  "text_field c =
     (case c of
        JObj kvs \<Rightarrow> (case map_of kvs ''text'' of Some (JStr s) \<Rightarrow> s | _ \<Rightarrow> [])
      | _ \<Rightarrow> [])"

definition preview_rule :: "json list \<Rightarrow> pystr" where
  "preview_rule blocks = take 500 (join_strs '' '' (map text_field (filter is_text_block blocks)))"

text \<open>
  The blocks the rule is meant for: every block is an object, and the text field of a
  text block, when it has one, is a string.
\<close>

definition block_ok :: "json \<Rightarrow> bool" where
  "block_ok c =
     (case c of
        JObj kvs \<Rightarrow>
          (if map_of kvs ''type'' = Some (JStr ''text'')
           then (case map_of kvs ''text'' of None \<Rightarrow> True | Some (JStr s) \<Rightarrow> True | Some _ \<Rightarrow> False)
           else True)
      | _ \<Rightarrow> False)"

definition blocks_ok :: "json list \<Rightarrow> bool" where
  "blocks_ok blocks = list_all block_ok blocks"

text \<open>\<^verbatim>\<open>d.get(key, default)\<close> on the items of a dict.\<close>

definition item_or :: "(pystr \<times> json) list \<Rightarrow> pystr \<Rightarrow> json \<Rightarrow> json" where
  "item_or kvs key dflt = (case map_of kvs key of None \<Rightarrow> dflt | Some v \<Rightarrow> v)"

text \<open>
  The three fields of a LogEntry that come from the response, read off the entry:
  \<open>(response_preview, input_tokens, output_tokens)\<close>, \<open>JNull\<close> for a key the entry
  does not have.
\<close>

definition logged :: "json \<Rightarrow> pystr \<Rightarrow> json" where
  "logged entry key = (case entry of JObj kvs \<Rightarrow> item_or kvs key JNull | _ \<Rightarrow> JNull)"

definition response_part :: "json \<Rightarrow> json \<times> json \<times> json" where
  "response_part entry =
     (logged entry ''response_preview'', logged entry ''input_tokens'',
      logged entry ''output_tokens'')"

section \<open>A concrete environment for the worked examples\<close>

definition ex_cfg :: config where
  "ex_cfg = \<lparr>LOG_DIR = ''/data/api-logs'', PROJECT_NAME = ''default''\<rparr>"

definition ex_day :: datetime where
  "ex_day = \<lparr>year = 2024, month = 3, day = 9, hour = 23, minute = 59, second = 58,
             microsecond = 0\<rparr>"


definition ex_clock :: clock where
  "ex_clock = \<lparr>start_time = 100, end_time = 203 / 2, entry_now = ex_day, file_now = ex_day\<rparr>"

text \<open>
  \<^verbatim>\<open>int((101.5 - 100.0) * 1000)\<close> is 1500, all three numbers being doubles and both
  operations exact. \<open>ex_elapsed\<close> is given on the readings of \<open>ex_clock\<close> only.
\<close>

definition ex_elapsed :: "rat \<Rightarrow> rat \<Rightarrow> int" where
  "ex_elapsed t0 t1 = (if t0 = 100 \<and> t1 = 203 / 2 then 1500 else 0)"

text \<open>
  Request bodies, and what \<^verbatim>\<open>json.loads\<close> returns on each. No other body is
  given to \<open>ex_loads\<close> but \<open>body_broken\<close>, which is not JSON.
\<close>

definition body_blocks :: bytes where
  \<open>body_blocks = ''{"model": "m1", "messages": [{"role": "user", "content": [{"type": "text", "text": "ab"}, {"type": "image"}, {"type": "text", "text": "cd"}]}]}''\<close>

definition json_blocks :: json where
  "json_blocks =
     JObj [(''model'', JStr ''m1''),
           (''messages'', JArr [JObj [(''role'', JStr ''user''),
              (''content'', JArr [JObj [(''type'', JStr ''text''), (''text'', JStr ''ab'')],
                                  JObj [(''type'', JStr ''image'')],
                                  JObj [(''type'', JStr ''text''), (''text'', JStr ''cd'')]])]])]"

definition body_list :: bytes where
  "body_list = ''[1]''"

definition body_mixed :: bytes where
  \<open>body_mixed = ''{"messages": [{"role": "user", "content": [{"type": "text", "text": "ab"}, "cd"]}]}''\<close>

definition json_mixed :: json where
  "json_mixed =
     JObj [(''messages'', JArr [JObj [(''role'', JStr ''user''),
              (''content'', JArr [JObj [(''type'', JStr ''text''), (''text'', JStr ''ab'')],
                                  JStr ''cd''])]])]"

definition body_long :: bytes where
  \<open>body_long = ''{"model": "m1", "messages": [{"role": "user", "content": "''
                 @ replicate 1000 (CHR ''x'') @ ''"}]}''\<close>

definition json_long :: json where
  "json_long =
     JObj [(''model'', JStr ''m1''),
           (''messages'', JArr [JObj [(''role'', JStr ''user''),
                                      (''content'', JStr (replicate 1000 (CHR ''x'')))]])]"

definition body_broken :: bytes where
  "body_broken = ''{not json''"

definition ex_loads :: "bytes \<Rightarrow> py_exception + json" where
  "ex_loads b =
     (if b = body_blocks then Inr json_blocks
      else if b = body_list then Inr (JArr [JInt 1])
      else if b = body_mixed then Inr json_mixed
      else if b = body_long then Inr json_long
      else Inl JSONDecodeError)"

text \<open>\<^verbatim>\<open>int(s)\<close> on the strings of decimal digits.\<close>

definition ex_int :: "pystr \<Rightarrow> py_exception + int" where
  "ex_int s =
     (if s \<noteq> [] \<and> list_all (\<lambda>c. 48 \<le> (of_char c :: nat) \<and> (of_char c :: nat) \<le> 57) s
      then Inr (foldl (\<lambda>a c. 10 * a + (int (of_char c) - 48)) 0 s)
      else Inl ValueError)"

text \<open>
  \<^verbatim>\<open>json.dumps\<close> on the objects whose serialisation the examples state. On any
  other value \<open>ex_dumps\<close> gives the empty string; no example states such a text.
\<close>

definition ex_line :: pystr where
  \<open>ex_line = ''{"timestamp": "2024-03-09T23:59:58", "project": "default", "model": "m1", "prompt_preview": "ab cd", "response_preview": "hi", "input_tokens": 12, "output_tokens": 3, "duration_ms": 1500, "status_code": 200, "path": "/v1/messages"}''\<close>

definition ex_dumps :: "json \<Rightarrow> pystr" where
  \<open>ex_dumps j =
     (if j = JObj [(''error'', JStr ''connection refused'')]
        then ''{"error": "connection refused"}''
      else if j = JObj [(''error'', JStr ''No space left on device'')]
        then ''{"error": "No space left on device"}''
      else if j = JObj [(''error'', JStr ''Permission denied'')]
        then ''{"error": "Permission denied"}''
      else if j = JObj [] then ''{}''
      else if j = JObj [(''timestamp'', JStr ''2024-03-09T23:59:58''),
                        (''project'', JStr ''default''), (''model'', JStr ''m1''),
                        (''prompt_preview'', JStr ''ab cd''),
                        (''response_preview'', JStr ''hi''), (''input_tokens'', JInt 12),
                        (''output_tokens'', JInt 3), (''duration_ms'', JInt 1500),
                        (''status_code'', JInt 200), (''path'', JStr ''/v1/messages'')]
        then ex_line
      else [])\<close>

text \<open>
  Two upstream answers: a completion, and an answer whose content is not blocks. The
  completion is sent with Content-Encoding gzip: \<open>gzip_ok\<close> is the 91 bytes that
  \<^verbatim>\<open>gzip.compress(text_ok, 9, mtime=0)\<close> gives for the 96 bytes of \<open>text_ok\<close>,
  and the client hands the handler the 96 bytes.
\<close>

definition text_ok :: pystr where
  \<open>text_ok = ''{"content": [{"type": "text", "text": "hi"}], "usage": {"input_tokens": 12, "output_tokens": 3}}''\<close>

definition gzip_ok :: bytes where
  "gzip_ok =
     [CHR 0x1F, CHR 0x8B, CHR 0x08, CHR 0x00, CHR 0x00, CHR 0x00, CHR 0x00, CHR 0x00, CHR 0x02,
      CHR 0x03, CHR 0xAB, CHR 0x56, CHR 0x4A, CHR 0xCE, CHR 0xCF, CHR 0x2B, CHR 0x49, CHR 0xCD,
      CHR 0x2B, CHR 0x51, CHR 0xB2, CHR 0x52, CHR 0x88, CHR 0xAE, CHR 0x56, CHR 0x2A, CHR 0xA9,
      CHR 0x2C, CHR 0x48, CHR 0x05, CHR 0xB2, CHR 0x94, CHR 0x4A, CHR 0x52, CHR 0x2B, CHR 0x4A,
      CHR 0x94, CHR 0x74, CHR 0xA0, CHR 0x34, CHR 0x90, CHR 0x9F, CHR 0x91, CHR 0xA9, CHR 0x54,
      CHR 0x1B, CHR 0x0B, CHR 0xE4, CHR 0x97, CHR 0x16, CHR 0x27, CHR 0xA6, CHR 0x83, CHR 0x14,
      CHR 0x54, CHR 0x2B, CHR 0x65, CHR 0xE6, CHR 0x15, CHR 0x94, CHR 0x96, CHR 0xC4, CHR 0x97,
      CHR 0xE4, CHR 0x67, CHR 0xA7, CHR 0xE6, CHR 0x15, CHR 0x03, CHR 0x05, CHR 0x0C, CHR 0x8D,
      CHR 0x80, CHR 0xB2, CHR 0xF9, CHR 0xA5, CHR 0x25, CHR 0x28, CHR 0x82, CHR 0xC6, CHR 0xB5,
      CHR 0xB5, CHR 0x00, CHR 0x45, CHR 0x5E, CHR 0x7D, CHR 0xB5, CHR 0x60, CHR 0x00, CHR 0x00,
      CHR 0x00]"

definition ex_response :: response where
  "ex_response =
     \<lparr>status_code = 200,
      header_items = [(''content-type'', ''application/json''),
                      (''content-encoding'', ''gzip''),
                      (''content-length'', ''91''),
                      (''request-id'', ''r1'')],
      raw_body = gzip_ok,
      content = text_ok,
      text_of = text_ok,
      json_result =
        Inr (JObj [(''content'', JArr [JObj [(''type'', JStr ''text''), (''text'', JStr ''hi'')]]),
                   (''usage'', JObj [(''input_tokens'', JInt 12), (''output_tokens'', JInt 3)])])\<rparr>"


definition text_odd :: pystr where
  \<open>text_odd = ''{"usage": {"input_tokens": 5, "output_tokens": 7}, "content": [1]}''\<close>

definition odd_response :: response where
  "odd_response =
     \<lparr>status_code = 200,
      header_items = [(''content-type'', ''application/json'')],
      raw_body = text_odd,
      content = text_odd,
      text_of = text_odd,
      json_result =
        Inr (JObj [(''usage'', JObj [(''input_tokens'', JInt 5), (''output_tokens'', JInt 7)]),
                   (''content'', JArr [JInt 1])])\<rparr>"

text \<open>
  An upstream answer with status 200 and no Content-Encoding, given its text and what
  \<^verbatim>\<open>json()\<close> does.
\<close>

definition response_of :: "pystr \<Rightarrow> py_exception + json \<Rightarrow> response" where
  "response_of t j =
     \<lparr>status_code = 200, header_items = [(''content-type'', ''application/json'')],
      raw_body = encode t, content = encode t, text_of = t, json_result = j\<rparr>"

text \<open>
  The environments: the upstream answers and the disk takes the write; the upstream
  answers without Content-Encoding; the upstream cannot be reached; the disk is full
  after 40 characters of the line; the log file cannot be opened.
\<close>

definition ex_env :: env where
  "ex_env = \<lparr>loads = ex_loads, dumps = ex_dumps, int_of_str = ex_int,
             send = (\<lambda>call. Inr ex_response), write_outcome = (\<lambda>p. Written),
             elapsed_ms = ex_elapsed\<rparr>"


definition env_down :: env where
  "env_down = ex_env\<lparr>send := (\<lambda>call. Inl ''connection refused'')\<rparr>"

definition env_disk_full :: env where
  "env_disk_full =
     ex_env\<lparr>write_outcome := (\<lambda>p. Write_Failed 40 ''No space left on device'')\<rparr>"

definition env_read_only :: env where
  "env_read_only = ex_env\<lparr>write_outcome := (\<lambda>p. Open_Failed ''Permission denied'')\<rparr>"

text \<open>A POST of \<open>body\<close> with its length as Content-Length, and the world it arrives in.\<close>

definition post_of :: "bytes \<Rightarrow> request" where
  "post_of b =
     \<lparr>path = ''/v1/messages'',
      headers = [(''Host'', ''localhost:8000''), (''Content-Type'', ''application/json''),
                 (''Content-Length'', str_nat (length b))]\<rparr>"

definition world_of :: "bytes \<Rightarrow> world" where
  "world_of b = \<lparr>files = Map.empty, rfile = b, upstream_calls = []\<rparr>"

text \<open>
  Two POSTs that announce no body: one chunked, without Content-Length, and one with
  a Content-Length of 0.
\<close>

definition chunked_post :: request where
  "chunked_post = \<lparr>path = ''/v1/messages'',
                    headers = [(''Host'', ''localhost:8000''), (''Transfer-Encoding'', ''chunked'')]\<rparr>"

definition zero_length_post :: request where
  "zero_length_post = \<lparr>path = ''/v1/messages'',
                    headers = [(''Host'', ''localhost:8000''), (''content-length'', ''0'')]\<rparr>"

text \<open>A GET without a body.\<close>

definition get_models :: request where
  "get_models = \<lparr>path = ''/v1/models'', headers = [(''Host'', ''localhost:8000'')]\<rparr>"

section \<open>Properties\<close>

subsection \<open>The preview of a list of blocks\<close>

lemma py_get_obj: "py_get (JObj kvs) key dflt = Inr (item_or kvs key dflt)"
  by (simp add: item_or_def)

lemma is_text_block_obj:
  "is_text_block (JObj kvs) \<longleftrightarrow> map_of kvs ''type'' = Some (JStr ''text'')"
  by (simp add: is_text_block_def)

lemma text_field_obj:
  "text_field (JObj kvs) = (case map_of kvs ''text'' of Some (JStr s) \<Rightarrow> s | _ \<Rightarrow> [])"
  by (simp add: text_field_def)

lemma block_ok_obj:
  "block_ok (JObj kvs) \<longleftrightarrow>
     (if map_of kvs ''type'' = Some (JStr ''text'')
      then (case map_of kvs ''text'' of None \<Rightarrow> True | Some (JStr s) \<Rightarrow> True | Some _ \<Rightarrow> False)
      else True)"
  by (simp add: block_ok_def)

lemma block_ok_is_obj: "block_ok c \<Longrightarrow> \<exists>kvs. c = JObj kvs"
  by (cases c) (simp_all add: block_ok_def)

lemma text_parts_ok:
  "blocks_ok blocks \<Longrightarrow>
   \<exists>vs. text_parts blocks = Inr vs \<and> the_strs vs = Inr (map text_field (filter is_text_block blocks))"
proof (induction blocks)
  case Nil
  then show ?case by simp
next
  case (Cons c cs)
  then obtain kvs where c: "c = JObj kvs" and ok: "block_ok (JObj kvs)" and rest: "blocks_ok cs"
    using block_ok_is_obj [of c] by (auto simp: blocks_ok_def)
  from Cons.IH rest obtain vs where vs: "text_parts cs = Inr vs"
      "the_strs vs = Inr (map text_field (filter is_text_block cs))"
    by blast
  show ?case
  proof (cases "map_of kvs ''type'' = Some (JStr ''text'')")
    case True
    with ok c vs show ?thesis
      by (auto simp: block_ok_obj is_text_block_obj text_field_obj
               split: option.splits json.splits)
  next
    case False
    with c vs show ?thesis
      by (auto simp: is_text_block_obj split: option.splits)
  qed
qed

lemma blocks_preview_ok:
  "blocks_ok blocks \<Longrightarrow> blocks_preview blocks = Inr (preview_rule blocks)"
  using text_parts_ok [of blocks]
  by (auto simp: blocks_preview_def py_join_def preview_rule_def)

lemma text_parts_not_ok:
  "\<not> blocks_ok blocks \<Longrightarrow> 
   (\<exists>e. text_parts blocks = Inl e) \<or> (\<exists>vs. text_parts blocks = Inr vs \<and> the_strs vs = Inl TypeError)"
proof (induction blocks)
  case Nil
  then show ?case by (simp add: blocks_ok_def)
next
  case (Cons c cs)
  show ?case
  proof (cases c)
    case (JObj kvs)
    show ?thesis
    proof (cases "block_ok c")
      case True
      with Cons have "\<not> blocks_ok cs" by (simp add: blocks_ok_def)
      with Cons.IH have ih: "(\<exists>e. text_parts cs = Inl e) \<or> (\<exists>vs. text_parts cs = Inr vs \<and> the_strs vs = Inl TypeError)"
        by blast
      with JObj True show ?thesis
        by (auto simp: block_ok_obj split: option.splits json.splits if_splits)
    next
      case False
      with JObj show ?thesis
        by (cases "text_parts cs") (auto simp: block_ok_obj split: option.splits json.splits if_splits)
    qed
  qed simp_all
qed

lemma blocks_preview_not_ok:
  "\<not> blocks_ok blocks \<Longrightarrow> \<exists>e. blocks_preview blocks = Inl e"
  using text_parts_not_ok [of blocks]
  by (auto simp: blocks_preview_def py_join_def)


subsection \<open>The handler once the request is read and parsed\<close>

text \<open>
  \<^verbatim>\<open>do_POST\<close> and, off \<^verbatim>\<open>/health\<close>, \<^verbatim>\<open>do_GET\<close> are
  \<^verbatim>\<open>proxy_request\<close>. When the body is read and the request parse leaves no
  exception, the handler makes the upstream call, and these outcomes remain: the call
  raises; the log file cannot be opened; the log write raises after part of the line
  reached the file; or the line is written and the answer is relayed.
\<close>

lemma do_POST_proxy: "do_POST ev cfg clk req w = proxy_request ev cfg clk ''POST'' req w"
  by (simp add: do_POST_def)

lemma do_GET_proxy:
  "path req \<noteq> ''/health'' \<Longrightarrow> do_GET ev cfg clk req w = proxy_request ev cfg clk ''GET'' req w"
  by (simp add: do_GET_def)

lemma proxy_request_reached:
  assumes "read_body ev req (rfile w) = Inr (request_body, rest)"
      and "parse_request ev request_body = Inr (model, prompt_preview)"
  shows "proxy_request ev cfg clk method req w =
     (case send ev (upstream_call method req request_body) of
        Inl msg \<Rightarrow>
          (Responded (error_response ev msg),
           w\<lparr>rfile := rest,
             upstream_calls := upstream_calls w @ [upstream_call method req request_body]\<rparr>)
      | Inr resp \<Rightarrow>
          (case write_outcome ev (get_log_file cfg (file_now clk)) of
             Open_Failed msg \<Rightarrow>
               (Responded (error_response ev msg),
                w\<lparr>rfile := rest,
                  upstream_calls := upstream_calls w @ [upstream_call method req request_body],
                  files := files w\<rparr>)
           | Write_Failed n msg \<Rightarrow>
               (Responded (error_response ev msg),
                w\<lparr>rfile := rest,
                  upstream_calls := upstream_calls w @ [upstream_call method req request_body],
                  files := append_text (files w) (get_log_file cfg (file_now clk))
                             (take n (dumps ev (log_entry ev cfg clk req model prompt_preview resp)
                                      @ [CHR 0x0A]))\<rparr>)
           | Written \<Rightarrow>
               (Responded (relay resp),
                w\<lparr>rfile := rest,
                  upstream_calls := upstream_calls w @ [upstream_call method req request_body],
                  files := append_text (files w) (get_log_file cfg (file_now clk))
                             (dumps ev (log_entry ev cfg clk req model prompt_preview resp)
                              @ [CHR 0x0A])\<rparr>)))"
  using assms
  by (simp add: proxy_request_def log_request_def Let_def split: sum.splits outcome.splits)

lemma proxy_request_not_reached:
  assumes "read_body ev req (rfile w) = Inl e
         \<or> (\<exists>request_body rest. read_body ev req (rfile w) = Inr (request_body, rest)
               \<and> parse_request ev request_body = Inl e)"
  shows "fst (proxy_request ev cfg clk method req w) = Raised e
       \<and> upstream_calls (snd (proxy_request ev cfg clk method req w)) = upstream_calls w
       \<and> files (snd (proxy_request ev cfg clk method req w)) = files w"
  using assms by (auto simp: proxy_request_def Let_def)

lemma proxy_request_raised:
  assumes "fst (proxy_request ev cfg clk method req w) = Raised e"
  shows "upstream_calls (snd (proxy_request ev cfg clk method req w)) = upstream_calls w
       \<and> files (snd (proxy_request ev cfg clk method req w)) = files w"
  using assms
  by (auto simp: proxy_request_def log_request_def Let_def
           split: sum.splits option.splits prod.splits outcome.splits)

subsection \<open>Upstream failure\<close>

text \<open>
  C6. When the handler gets as far as the upstream call (the body was read and the request
  parse left no exception) and the call raises, the handler has made exactly that one
  call, no second one, and answers with status 502 and the JSON body
  \<^verbatim>\<open>{"error": "<message>"}\<close>, the serialisation of the object whose only key
  \<open>error\<close> holds the exception's message.
\<close>

theorem upstream_failure_gives_502:
  assumes "read_body ev req (rfile w) = Inr (request_body, rest)"
      and "parse_request ev request_body = Inr (model, prompt_preview)"
      and "send ev (upstream_call method req request_body) = Inl msg"
  shows "proxy_request ev cfg clk method req w =
           (Responded \<lparr>status = 502,
                       sent_headers = [(''Content-Type'', ''application/json'')],
                       body = encode (dumps ev (JObj [(''error'', JStr msg)]))\<rparr>,
            w\<lparr>rfile := rest,
              upstream_calls := upstream_calls w @ [upstream_call method req request_body]\<rparr>)"
  using assms(3) by (simp add: proxy_request_reached [OF assms(1,2)] error_response_def)

theorem upstream_failure_gives_502_witness:
  \<open>read_body env_down (post_of body_blocks) (rfile (world_of body_blocks)) = Inr (body_blocks, [])
   \<and> parse_request env_down body_blocks = Inr (JStr ''m1'', ''ab cd'')
   \<and> send env_down (upstream_call ''POST'' (post_of body_blocks) body_blocks)
       = Inl ''connection refused''
   \<and> fst (proxy_request env_down ex_cfg ex_clock ''POST'' (post_of body_blocks)
            (world_of body_blocks))
       = Responded \<lparr>status = 502,
                    sent_headers = [(''Content-Type'', ''application/json'')],
                    body = ''{"error": "connection refused"}''\<rparr>
   \<and> length (upstream_calls (snd (proxy_request env_down ex_cfg ex_clock ''POST''
               (post_of body_blocks) (world_of body_blocks)))) = 1\<close>
proof -
  have h1: "read_body env_down (post_of body_blocks) (rfile (world_of body_blocks))
              = Inr (body_blocks, [])"
    by code_simp
  have h2: "parse_request env_down body_blocks = Inr (JStr ''m1'', ''ab cd'')"
    by code_simp
  have h3: "send env_down (upstream_call ''POST'' (post_of body_blocks) body_blocks)
              = Inl ''connection refused''"
    by (simp add: env_down_def)
  have b: \<open>encode (dumps env_down (JObj [(''error'', JStr ''connection refused'')]))
             = ''{"error": "connection refused"}''\<close>
    by code_simp
  have u: "upstream_calls (world_of body_blocks) = []"
    by (simp add: world_of_def)
  from upstream_failure_gives_502 [OF h1 h2 h3, of ex_cfg ex_clock] h1 h2 h3 b u
  show ?thesis by simp
qed


subsection \<open>Log entries per request\<close>

text \<open>
  C1, as stated, fails: when the upstream call raises, the \<^verbatim>\<open>except\<close> branch
  answers 502 and never calls \<^verbatim>\<open>log_request\<close>. Here the upstream refuses the
  connection: the caller gets 502 and the files are what they were, so no entry was
  written.
\<close>

theorem upstream_failure_logs_nothing:
  "fst (do_POST env_down ex_cfg ex_clock (post_of body_blocks) (world_of body_blocks))
     = Responded (error_response env_down ''connection refused'')
   \<and> status (error_response env_down ''connection refused'') = 502
   \<and> files (snd (do_POST env_down ex_cfg ex_clock (post_of body_blocks) (world_of body_blocks)))
     = files (world_of body_blocks)"
proof -
  have h1: "read_body env_down (post_of body_blocks) (rfile (world_of body_blocks))
              = Inr (body_blocks, [])"
    by code_simp
  have h2: "parse_request env_down body_blocks = Inr (JStr ''m1'', ''ab cd'')"
    by code_simp
  have h3: "send env_down (upstream_call ''POST'' (post_of body_blocks) body_blocks)
              = Inl ''connection refused''"
    by (simp add: env_down_def)
  show ?thesis
    using h3 by (simp add: do_POST_def proxy_request_reached [OF h1 h2] error_response_def)
qed

text \<open>
  C1, amended. For a request that reaches the upstream call, at most one entry is
  appended. When the upstream call succeeds and the write goes through, exactly one line
  is appended to the day's file: the serialised entry and a line feed; the entry carries
  the upstream's status code and the prompt preview extracted from the request. When the
  upstream call fails, the caller gets 502 and the files are left as they were. When the
  write itself fails, no complete entry is promised: the files are left as they were when
  the log file could not be opened, and otherwise the day's file gets the part of the line
  that was written before the error, and nothing else.
\<close>

theorem log_entry_per_request:
  assumes "read_body ev req (rfile w) = Inr (request_body, rest)"
      and "parse_request ev request_body = Inr (model, prompt_preview)"
  shows "(\<forall>msg. send ev (upstream_call method req request_body) = Inl msg \<longrightarrow>
            fst (proxy_request ev cfg clk method req w) = Responded (error_response ev msg)
          \<and> status (error_response ev msg) = 502
          \<and> files (snd (proxy_request ev cfg clk method req w)) = files w)
       \<and> (\<forall>resp. send ev (upstream_call method req request_body) = Inr resp
                 \<and> write_outcome ev (get_log_file cfg (file_now clk)) = Written \<longrightarrow>
            files (snd (proxy_request ev cfg clk method req w))
              = append_text (files w) (get_log_file cfg (file_now clk))
                  (dumps ev (log_entry ev cfg clk req model prompt_preview resp) @ [CHR 0x0A])
          \<and> py_get (log_entry ev cfg clk req model prompt_preview resp) ''status_code'' JNull
              = Inr (JInt (status_code resp))
          \<and> py_get (log_entry ev cfg clk req model prompt_preview resp) ''prompt_preview'' JNull
              = Inr (JStr prompt_preview))
       \<and> (\<forall>resp msg. send ev (upstream_call method req request_body) = Inr resp
                 \<and> write_outcome ev (get_log_file cfg (file_now clk)) = Open_Failed msg \<longrightarrow>
            files (snd (proxy_request ev cfg clk method req w)) = files w)
       \<and> (\<forall>resp n msg. send ev (upstream_call method req request_body) = Inr resp
                 \<and> write_outcome ev (get_log_file cfg (file_now clk)) = Write_Failed n msg \<longrightarrow>
            files (snd (proxy_request ev cfg clk method req w))
              = append_text (files w) (get_log_file cfg (file_now clk))
                  (take n (dumps ev (log_entry ev cfg clk req model prompt_preview resp)
                           @ [CHR 0x0A])))"
  by (simp add: proxy_request_reached [OF assms] error_response_def log_entry_def Let_def
           split: prod.splits)

theorem log_entry_per_request_witness:
  \<open>read_body ex_env (post_of body_blocks) (rfile (world_of body_blocks)) = Inr (body_blocks, [])
   \<and> parse_request ex_env body_blocks = Inr (JStr ''m1'', ''ab cd'')
   \<and> send ex_env (upstream_call ''POST'' (post_of body_blocks) body_blocks) = Inr ex_response
   \<and> write_outcome ex_env (get_log_file ex_cfg (file_now ex_clock)) = Written
   \<and> files (snd (proxy_request ex_env ex_cfg ex_clock ''POST'' (post_of body_blocks)
              (world_of body_blocks)))
        (Join (Join (Path ''/data/api-logs'') ''default'') ''api-log-2024-03-09.jsonl'')
       = Some (ex_line @ [CHR 0x0A])
   \<and> read_body env_disk_full (post_of body_blocks) (rfile (world_of body_blocks))
       = Inr (body_blocks, [])
   \<and> parse_request env_disk_full body_blocks = Inr (JStr ''m1'', ''ab cd'')
   \<and> send env_disk_full (upstream_call ''POST'' (post_of body_blocks) body_blocks)
       = Inr ex_response
   \<and> write_outcome env_disk_full (get_log_file ex_cfg (file_now ex_clock))
       = Write_Failed 40 ''No space left on device''
   \<and> files (snd (proxy_request env_disk_full ex_cfg ex_clock ''POST'' (post_of body_blocks)
              (world_of body_blocks)))
        (Join (Join (Path ''/data/api-logs'') ''default'') ''api-log-2024-03-09.jsonl'')
       = Some ''{"timestamp": "2024-03-09T23:59:58", "pr''
   \<and> read_body env_read_only (post_of body_blocks) (rfile (world_of body_blocks))
       = Inr (body_blocks, [])
   \<and> parse_request env_read_only body_blocks = Inr (JStr ''m1'', ''ab cd'')
   \<and> send env_read_only (upstream_call ''POST'' (post_of body_blocks) body_blocks)
       = Inr ex_response
   \<and> write_outcome env_read_only (get_log_file ex_cfg (file_now ex_clock))
       = Open_Failed ''Permission denied''
   \<and> files (snd (proxy_request env_read_only ex_cfg ex_clock ''POST'' (post_of body_blocks)
              (world_of body_blocks)))
        (Join (Join (Path ''/data/api-logs'') ''default'') ''api-log-2024-03-09.jsonl'')
       = None
   \<and> read_body env_down (post_of body_blocks) (rfile (world_of body_blocks))
       = Inr (body_blocks, [])
   \<and> parse_request env_down body_blocks = Inr (JStr ''m1'', ''ab cd'')
   \<and> send env_down (upstream_call ''POST'' (post_of body_blocks) body_blocks)
       = Inl ''connection refused''
   \<and> files (snd (proxy_request env_down ex_cfg ex_clock ''POST'' (post_of body_blocks)
              (world_of body_blocks)))
        (Join (Join (Path ''/data/api-logs'') ''default'') ''api-log-2024-03-09.jsonl'')
       = None\<close>
proof -
  let ?p = "Join (Join (Path ''/data/api-logs'') ''default'') ''api-log-2024-03-09.jsonl''"
  have p: "get_log_file ex_cfg (file_now ex_clock) = ?p"
    by code_simp
  have f: "files (world_of body_blocks) = Map.empty"
    by (simp add: world_of_def)
  have a1: "read_body ex_env (post_of body_blocks) (rfile (world_of body_blocks))
              = Inr (body_blocks, [])"
    by code_simp
  have a2: "parse_request ex_env body_blocks = Inr (JStr ''m1'', ''ab cd'')"
    by code_simp
  have a3: "send ex_env (upstream_call ''POST'' (post_of body_blocks) body_blocks) = Inr ex_response"
    by (simp add: ex_env_def)
  have a4: "write_outcome ex_env (get_log_file ex_cfg (file_now ex_clock)) = Written"
    by (simp add: ex_env_def)
  have a5: "dumps ex_env (log_entry ex_env ex_cfg ex_clock (post_of body_blocks) (JStr ''m1'')
             ''ab cd'' ex_response) = ex_line"
    by code_simp
  from log_entry_per_request [OF a1 a2, of "''POST''" ex_cfg ex_clock] a3 a4
  have "files (snd (proxy_request ex_env ex_cfg ex_clock ''POST'' (post_of body_blocks)
              (world_of body_blocks)))
          = append_text (files (world_of body_blocks)) (get_log_file ex_cfg (file_now ex_clock))
              (dumps ex_env (log_entry ex_env ex_cfg ex_clock (post_of body_blocks) (JStr ''m1'')
                 ''ab cd'' ex_response) @ [CHR 0x0A])"
    by blast
  then have a: "files (snd (proxy_request ex_env ex_cfg ex_clock ''POST'' (post_of body_blocks)
              (world_of body_blocks))) ?p = Some (ex_line @ [CHR 0x0A])"
    by (simp add: p a5 f append_text_def)
  have b1: "read_body env_disk_full (post_of body_blocks) (rfile (world_of body_blocks))
              = Inr (body_blocks, [])"
    by code_simp
  have b2: "parse_request env_disk_full body_blocks = Inr (JStr ''m1'', ''ab cd'')"
    by code_simp
  have b3: "send env_disk_full (upstream_call ''POST'' (post_of body_blocks) body_blocks)
              = Inr ex_response"
    by (simp add: env_disk_full_def ex_env_def)
  have b4: "write_outcome env_disk_full (get_log_file ex_cfg (file_now ex_clock))
              = Write_Failed 40 ''No space left on device''"
    by (simp add: env_disk_full_def)
  have b5: \<open>take 40 (dumps env_disk_full (log_entry env_disk_full ex_cfg ex_clock
               (post_of body_blocks) (JStr ''m1'') ''ab cd'' ex_response) @ [CHR 0x0A])
             = ''{"timestamp": "2024-03-09T23:59:58", "pr''\<close>
    by code_simp
  from log_entry_per_request [OF b1 b2, of "''POST''" ex_cfg ex_clock] b3 b4
  have "files (snd (proxy_request env_disk_full ex_cfg ex_clock ''POST'' (post_of body_blocks)
              (world_of body_blocks)))
          = append_text (files (world_of body_blocks)) (get_log_file ex_cfg (file_now ex_clock))
              (take 40 (dumps env_disk_full (log_entry env_disk_full ex_cfg ex_clock
                 (post_of body_blocks) (JStr ''m1'') ''ab cd'' ex_response) @ [CHR 0x0A]))"
    by blast
  then have b: \<open>files (snd (proxy_request env_disk_full ex_cfg ex_clock ''POST''
              (post_of body_blocks) (world_of body_blocks))) ?p
            = Some ''{"timestamp": "2024-03-09T23:59:58", "pr''\<close>
    by (simp only: b5) (simp add: p f append_text_def)
  have c1: "read_body env_read_only (post_of body_blocks) (rfile (world_of body_blocks))
              = Inr (body_blocks, [])"
    by code_simp
  have c2: "parse_request env_read_only body_blocks = Inr (JStr ''m1'', ''ab cd'')"
    by code_simp
  have c3: "send env_read_only (upstream_call ''POST'' (post_of body_blocks) body_blocks)
              = Inr ex_response"
    by (simp add: env_read_only_def ex_env_def)
  have c4: "write_outcome env_read_only (get_log_file ex_cfg (file_now ex_clock))
              = Open_Failed ''Permission denied''"
    by (simp add: env_read_only_def)
  from log_entry_per_request [OF c1 c2, of "''POST''" ex_cfg ex_clock] c3 c4
  have "files (snd (proxy_request env_read_only ex_cfg ex_clock ''POST'' (post_of body_blocks)
              (world_of body_blocks))) = files (world_of body_blocks)"
    by blast
  then have c: "files (snd (proxy_request env_read_only ex_cfg ex_clock ''POST''
              (post_of body_blocks) (world_of body_blocks))) ?p = None"
    by (simp add: f)
  have d1: "read_body env_down (post_of body_blocks) (rfile (world_of body_blocks))
              = Inr (body_blocks, [])"
    by code_simp
  have d2: "parse_request env_down body_blocks = Inr (JStr ''m1'', ''ab cd'')"
    by code_simp
  have d3: "send env_down (upstream_call ''POST'' (post_of body_blocks) body_blocks)
              = Inl ''connection refused''"
    by (simp add: env_down_def)
  from log_entry_per_request [OF d1 d2, of "''POST''" ex_cfg ex_clock] d3
  have "files (snd (proxy_request env_down ex_cfg ex_clock ''POST'' (post_of body_blocks)
              (world_of body_blocks))) = files (world_of body_blocks)"
    by blast
  then have d: "files (snd (proxy_request env_down ex_cfg ex_clock ''POST''
              (post_of body_blocks) (world_of body_blocks))) ?p = None"
    by (simp add: f)
  from a1 a2 a3 a4 a b1 b2 b3 b4 b c1 c2 c3 c4 c d1 d2 d3 d show ?thesis
    by (intro conjI)
qed

subsection \<open>What a failure in the logging path does to the response\<close>




subsection \<open>The relayed response\<close>




subsection \<open>Requests without a Content-Length\<close>

lemma parse_request_empty: "parse_request ev [] = Inr (JStr [], [])"
  by (simp add: parse_request_def)

text \<open>
  C10. When the Content-Length header is absent, or present with a value that
  \<^verbatim>\<open>int\<close> reads as 0, the handler reads nothing from the inbound connection
  (the unread bytes stay what they were, whatever the connection carries) and the upstream
  call it makes has an empty body.
\<close>

theorem no_content_length_no_body:
  assumes "headers_get (headers req) ''Content-Length'' = None
         \<or> (\<exists>v. headers_get (headers req) ''Content-Length'' = Some v \<and> int_of_str ev v = Inr 0)"
  shows "read_body ev req (rfile w) = Inr ([], rfile w)
       \<and> rfile (snd (proxy_request ev cfg clk method req w)) = rfile w
       \<and> upstream_calls (snd (proxy_request ev cfg clk method req w))
           = upstream_calls w @ [upstream_call method req []]
       \<and> up_content (upstream_call method req []) = []"
proof -
  from assms have rb: "read_body ev req (rfile w) = Inr ([], rfile w)"
    by (auto simp: read_body_def)
  show ?thesis
    by (simp add: rb proxy_request_reached [OF rb parse_request_empty] upstream_call_def Let_def
             split: sum.splits outcome.splits)
qed

theorem no_content_length_no_body_witness:
  "headers_get (headers chunked_post) ''Content-Length'' = None
   \<and> headers_get (headers zero_length_post) ''Content-Length'' = Some ''0''
   \<and> int_of_str ex_env ''0'' = Inr 0
   \<and> rfile (snd (proxy_request ex_env ex_cfg ex_clock ''POST'' chunked_post (world_of body_blocks)))
       = body_blocks
   \<and> map up_content (upstream_calls (snd (proxy_request ex_env ex_cfg ex_clock ''POST''
         chunked_post (world_of body_blocks)))) = [[]]
   \<and> rfile (snd (proxy_request ex_env ex_cfg ex_clock ''POST'' zero_length_post
         (world_of body_blocks))) = body_blocks
   \<and> map up_content (upstream_calls (snd (proxy_request ex_env ex_cfg ex_clock ''POST''
         zero_length_post (world_of body_blocks)))) = [[]]"
proof -
  have a: "headers_get (headers chunked_post) ''Content-Length'' = None"
    by code_simp
  have b: "headers_get (headers zero_length_post) ''Content-Length'' = Some ''0''"
    by code_simp
  have c: "int_of_str ex_env ''0'' = Inr 0"
    by code_simp
  have w: "rfile (world_of body_blocks) = body_blocks" "upstream_calls (world_of body_blocks) = []"
    by (simp_all add: world_of_def)
  from a have ha: "headers_get (headers chunked_post) ''Content-Length'' = None
         \<or> (\<exists>v. headers_get (headers chunked_post) ''Content-Length'' = Some v
                \<and> int_of_str ex_env v = Inr 0)"
    by simp
  from b c have hb: "headers_get (headers zero_length_post) ''Content-Length'' = None
         \<or> (\<exists>v. headers_get (headers zero_length_post) ''Content-Length'' = Some v
                \<and> int_of_str ex_env v = Inr 0)"
    by simp
  from no_content_length_no_body [OF ha, of "world_of body_blocks" ex_cfg ex_clock "''POST''"]
       no_content_length_no_body [OF hb, of "world_of body_blocks" ex_cfg ex_clock "''POST''"]
       a b c w
  show ?thesis by simp
qed

subsection \<open>Request bodies that are not what the parse expects\<close>

text \<open>
  A body that \<^verbatim>\<open>json.loads\<close> rejects with JSONDecodeError is the case the
  handler of line 110 catches: the fields keep their defaults and the request goes on.
\<close>

lemma malformed_json_forwarded:
  assumes "request_body \<noteq> []" and "loads ev request_body = Inl JSONDecodeError"
  shows "parse_request ev request_body = Inr (JStr [], [])"
  using assms by (simp add: parse_request_def request_fields_def)

lemma malformed_json_example:
  "loads ex_env body_broken = Inl JSONDecodeError
   \<and> fst (do_POST ex_env ex_cfg ex_clock (post_of body_broken) (world_of body_broken))
       = Responded (relay ex_response)
   \<and> map up_content (upstream_calls (snd (do_POST ex_env ex_cfg ex_clock (post_of body_broken)
         (world_of body_broken)))) = [body_broken]"
  by code_simp

text \<open>
  C2 does not hold of the code. The body \<^verbatim>\<open>[1]\<close> is valid JSON whose top level
  is a list, so \<^verbatim>\<open>request_data.get\<close> raises AttributeError, which
  \<^verbatim>\<open>except json.JSONDecodeError\<close> does not catch: the exception leaves
  \<^verbatim>\<open>proxy_request\<close> before the upstream call, although the upstream would have
  answered. The request is not forwarded.
\<close>

theorem non_object_body_aborts:
  "loads ex_env body_list = Inr (JArr [JInt 1])
   \<and> send ex_env (upstream_call ''POST'' (post_of body_list) body_list) = Inr ex_response
   \<and> fst (do_POST ex_env ex_cfg ex_clock (post_of body_list) (world_of body_list))
       = Raised AttributeError
   \<and> upstream_calls (snd (do_POST ex_env ex_cfg ex_clock (post_of body_list) (world_of body_list)))
       = []"
  by code_simp

subsection \<open>The log file\<close>










subsection \<open>The fields read from the response\<close>

lemma raw_preview_take: "raw_preview resp = take 500 (text_of resp)"
  by (simp add: raw_preview_def)

text \<open>
  What the response parse gives, case by case: the raw text and zero counts when
  \<^verbatim>\<open>response.json()\<close> raises or the body or its usage is not an object; else the
  counts of the usage object, with the preview that the content gives.
\<close>

lemma parse_response_cases:
  "(\<forall>e. json_result resp = Inl e \<longrightarrow>
        parse_response resp = (take 500 (text_of resp), JInt 0, JInt 0))
   \<and> (\<forall>d. json_result resp = Inr d \<and> (\<forall>kvs. d \<noteq> JObj kvs) \<longrightarrow>
        parse_response resp = (take 500 (text_of resp), JInt 0, JInt 0))
   \<and> (\<forall>kvs. json_result resp = Inr (JObj kvs)
            \<and> (\<forall>u. item_or kvs ''usage'' (JObj []) \<noteq> JObj u) \<longrightarrow>
        parse_response resp = (take 500 (text_of resp), JInt 0, JInt 0))
   \<and> (\<forall>kvs u. json_result resp = Inr (JObj kvs)
            \<and> item_or kvs ''usage'' (JObj []) = JObj u \<longrightarrow>
        parse_response resp =
          (case item_or kvs ''content'' (JArr []) of
             JArr blocks \<Rightarrow>
               if blocks = [] then []
               else if blocks_ok blocks then preview_rule blocks
               else take 500 (text_of resp)
           | _ \<Rightarrow> [],
           item_or u ''input_tokens'' (JInt 0),
           item_or u ''output_tokens'' (JInt 0)))"
proof (intro conjI allI impI)
  fix e assume "json_result resp = Inl e"
  then show "parse_response resp = (take 500 (text_of resp), JInt 0, JInt 0)"
    by (simp add: parse_response_def raw_preview_take)
next
  fix d assume "json_result resp = Inr d \<and> (\<forall>kvs. d \<noteq> JObj kvs)"
  then show "parse_response resp = (take 500 (text_of resp), JInt 0, JInt 0)"
    by (cases d) (simp_all add: parse_response_def raw_preview_take)
next
  fix kvs
  assume a: "json_result resp = Inr (JObj kvs) \<and> (\<forall>u. item_or kvs ''usage'' (JObj []) \<noteq> JObj u)"
  then show "parse_response resp = (take 500 (text_of resp), JInt 0, JInt 0)"
    by (cases "item_or kvs ''usage'' (JObj [])")
       (simp_all add: parse_response_def raw_preview_take py_get_obj del: py_get.simps(1))
next
  fix kvs u
  assume a: "json_result resp = Inr (JObj kvs) \<and> item_or kvs ''usage'' (JObj []) = JObj u"
  show "parse_response resp =
          (case item_or kvs ''content'' (JArr []) of
             JArr blocks \<Rightarrow>
               if blocks = [] then []
               else if blocks_ok blocks then preview_rule blocks
               else take 500 (text_of resp)
           | _ \<Rightarrow> [],
           item_or u ''input_tokens'' (JInt 0),
           item_or u ''output_tokens'' (JInt 0))"
  proof (cases "item_or kvs ''content'' (JArr [])")
    case (JArr blocks)
    show ?thesis
    proof (cases "blocks_ok blocks")
      case True
      with a JArr show ?thesis
        by (simp add: parse_response_def raw_preview_take py_get_obj blocks_preview_ok
                 preview_rule_def del: py_get.simps(1))
    next
      case False
      then obtain e where "blocks_preview blocks = Inl e"
        using blocks_preview_not_ok by blast
      moreover from False have "blocks \<noteq> []"
        by (auto simp: blocks_ok_def)
      ultimately show ?thesis
        using a JArr False by (simp add: parse_response_def raw_preview_take py_get_obj del: py_get.simps(1))
    qed
  qed (use a in \<open>simp_all add: parse_response_def raw_preview_take py_get_obj del: py_get.simps(1)\<close>)
qed


text \<open>The entry carries what the response parse gave.\<close>

lemma response_part_log_entry:
  "response_part (log_entry ev cfg clk req model prompt_preview resp)
     = (case parse_response resp of
          (response_preview, input_tokens, output_tokens) \<Rightarrow>
            (JStr response_preview, input_tokens, output_tokens))"
  by (simp add: response_part_def logged_def log_entry_def item_or_def Let_def
           split: prod.splits)

text \<open>
  C7, as stated, fails. The bare \<^verbatim>\<open>except:\<close> sets the preview only, so the token
  counts assigned before the exception stay. Here the body has a usage object and a content
  list whose block is the number 1: the entry's preview is the raw text, and its token
  counts are 5 and 7, not 0.
\<close>

theorem fallback_keeps_token_counts:
  "json_result odd_response
     = Inr (JObj [(''usage'', JObj [(''input_tokens'', JInt 5), (''output_tokens'', JInt 7)]),
                  (''content'', JArr [JInt 1])])
   \<and> text_of odd_response = text_odd
   \<and> response_part (log_entry ex_env ex_cfg ex_clock (post_of body_blocks) (JStr ''m1'')
                       ''ab cd'' odd_response)
       = (JStr text_odd, JInt 5, JInt 7)"
  by code_simp

text \<open>
  C7, amended. The LogEntry's \<open>response_preview\<close>, \<open>input_tokens\<close> and
  \<open>output_tokens\<close> are these. When \<^verbatim>\<open>response.json()\<close> raises, or returns a
  value that is not an object, or the usage is not an object, the preview is the first 500
  characters of the response text and both token counts are 0. When the body is an object
  whose usage (an empty object when absent) is an object, the token counts are its
  \<open>input_tokens\<close> and \<open>output_tokens\<close> (0 when absent), and the preview is: empty
  when the content is absent, empty, or not a list; the specification's rule on a non-empty
  list of well-shaped blocks; and the first 500 characters of the response text, with the
  token counts kept, when a block of the list is not well shaped.
\<close>

theorem log_entry_response_fields:
  "(\<forall>e. json_result resp = Inl e \<longrightarrow>
        response_part (log_entry ev cfg clk req model prompt_preview resp)
          = (JStr (take 500 (text_of resp)), JInt 0, JInt 0))
   \<and> (\<forall>d. json_result resp = Inr d \<and> (\<forall>kvs. d \<noteq> JObj kvs) \<longrightarrow>
        response_part (log_entry ev cfg clk req model prompt_preview resp)
          = (JStr (take 500 (text_of resp)), JInt 0, JInt 0))
   \<and> (\<forall>kvs. json_result resp = Inr (JObj kvs)
            \<and> (\<forall>u. item_or kvs ''usage'' (JObj []) \<noteq> JObj u) \<longrightarrow>
        response_part (log_entry ev cfg clk req model prompt_preview resp)
          = (JStr (take 500 (text_of resp)), JInt 0, JInt 0))
   \<and> (\<forall>kvs u. json_result resp = Inr (JObj kvs)
            \<and> item_or kvs ''usage'' (JObj []) = JObj u \<longrightarrow>
        response_part (log_entry ev cfg clk req model prompt_preview resp) =
          (JStr (case item_or kvs ''content'' (JArr []) of
                   JArr blocks \<Rightarrow>
                     if blocks = [] then []
                     else if blocks_ok blocks then preview_rule blocks
                     else take 500 (text_of resp)
                 | _ \<Rightarrow> []),
           item_or u ''input_tokens'' (JInt 0),
           item_or u ''output_tokens'' (JInt 0)))"
proof -
  note c = parse_response_cases [of resp]
  show ?thesis
    unfolding response_part_log_entry
  proof (intro conjI allI impI)
    fix e assume "json_result resp = Inl e"
    with c [THEN conjunct1] show "(case parse_response resp of
          (response_preview, input_tokens, output_tokens) \<Rightarrow>
            (JStr response_preview, input_tokens, output_tokens))
          = (JStr (take 500 (text_of resp)), JInt 0, JInt 0)"
      by simp
  next
    fix d assume "json_result resp = Inr d \<and> (\<forall>kvs. d \<noteq> JObj kvs)"
    with c [THEN conjunct2, THEN conjunct1] show "(case parse_response resp of
          (response_preview, input_tokens, output_tokens) \<Rightarrow>
            (JStr response_preview, input_tokens, output_tokens))
          = (JStr (take 500 (text_of resp)), JInt 0, JInt 0)"
      by simp
  next
    fix kvs assume "json_result resp = Inr (JObj kvs)
            \<and> (\<forall>u. item_or kvs ''usage'' (JObj []) \<noteq> JObj u)"
    with c [THEN conjunct2, THEN conjunct2, THEN conjunct1] show "(case parse_response resp of
          (response_preview, input_tokens, output_tokens) \<Rightarrow>
            (JStr response_preview, input_tokens, output_tokens))
          = (JStr (take 500 (text_of resp)), JInt 0, JInt 0)"
      by simp
  next
    fix kvs u assume a: "json_result resp = Inr (JObj kvs)
            \<and> item_or kvs ''usage'' (JObj []) = JObj u"
    from c [THEN conjunct2, THEN conjunct2, THEN conjunct2, THEN spec, THEN spec, THEN mp, OF a]
    show "(case parse_response resp of
          (response_preview, input_tokens, output_tokens) \<Rightarrow>
            (JStr response_preview, input_tokens, output_tokens))
          = (JStr (case item_or kvs ''content'' (JArr []) of
                   JArr blocks \<Rightarrow>
                     if blocks = [] then []
                     else if blocks_ok blocks then preview_rule blocks
                     else take 500 (text_of resp)
                 | _ \<Rightarrow> []),
           item_or u ''input_tokens'' (JInt 0),
           item_or u ''output_tokens'' (JInt 0))"
      by simp
  qed
qed

theorem log_entry_response_fields_witness:
  \<open>response_part (log_entry ex_env ex_cfg ex_clock get_models (JStr []) []
                    (response_of ''<html>'' (Inl JSONDecodeError)))
       = (JStr ''<html>'', JInt 0, JInt 0)
   \<and> response_part (log_entry ex_env ex_cfg ex_clock get_models (JStr []) []
                    (response_of ''[]'' (Inr (JArr []))))
       = (JStr ''[]'', JInt 0, JInt 0)
   \<and> response_part (log_entry ex_env ex_cfg ex_clock get_models (JStr []) []
                    (response_of ''{"usage": 5}'' (Inr (JObj [(''usage'', JInt 5)]))))
       = (JStr ''{"usage": 5}'', JInt 0, JInt 0)
   \<and> item_or [(''content'', JArr [JObj [(''type'', JStr ''text''), (''text'', JStr ''hi'')]]),
               (''usage'', JObj [(''input_tokens'', JInt 12), (''output_tokens'', JInt 3)])]
        ''usage'' (JObj [])
       = JObj [(''input_tokens'', JInt 12), (''output_tokens'', JInt 3)]
   \<and> response_part (log_entry ex_env ex_cfg ex_clock (post_of body_blocks) (JStr ''m1'')
                    ''ab cd'' ex_response)
       = (JStr ''hi'', JInt 12, JInt 3)\<close>
proof -
  have j1: "json_result (response_of ''<html>'' (Inl JSONDecodeError)) = Inl JSONDecodeError"
    by (simp add: response_of_def)
  have j2: "json_result (response_of ''[]'' (Inr (JArr []))) = Inr (JArr [])
            \<and> (\<forall>kvs. JArr [] \<noteq> JObj kvs)"
    by (simp add: response_of_def)
  have j3: \<open>json_result (response_of ''{"usage": 5}'' (Inr (JObj [(''usage'', JInt 5)])))
              = Inr (JObj [(''usage'', JInt 5)])
            \<and> (\<forall>u. item_or [(''usage'', JInt 5)] ''usage'' (JObj []) \<noteq> JObj u)\<close>
    by (simp add: response_of_def item_or_def)
  have j4: "json_result ex_response
              = Inr (JObj [(''content'', JArr [JObj [(''type'', JStr ''text''), (''text'', JStr ''hi'')]]),
                     (''usage'', JObj [(''input_tokens'', JInt 12), (''output_tokens'', JInt 3)])])
            \<and> item_or [(''content'', JArr [JObj [(''type'', JStr ''text''), (''text'', JStr ''hi'')]]),
                        (''usage'', JObj [(''input_tokens'', JInt 12), (''output_tokens'', JInt 3)])]
                 ''usage'' (JObj [])
              = JObj [(''input_tokens'', JInt 12), (''output_tokens'', JInt 3)]"
    by (simp add: ex_response_def item_or_def)
  have t: "text_of (response_of s j) = s" for s j
    by (simp add: response_of_def)
  have v: "(JStr (case item_or [(''content'', JArr [JObj [(''type'', JStr ''text''), (''text'', JStr ''hi'')]]),
                        (''usage'', JObj [(''input_tokens'', JInt 12), (''output_tokens'', JInt 3)])]
                   ''content'' (JArr []) of
             JArr blocks \<Rightarrow>
               if blocks = [] then []
               else if blocks_ok blocks then preview_rule blocks
               else take 500 (text_of ex_response)
           | _ \<Rightarrow> []),
           item_or [(''input_tokens'', JInt 12), (''output_tokens'', JInt 3)] ''input_tokens'' (JInt 0),
           item_or [(''input_tokens'', JInt 12), (''output_tokens'', JInt 3)] ''output_tokens'' (JInt 0))
         = (JStr ''hi'', JInt 12, JInt 3)"
    by code_simp
  from log_entry_response_fields [of "response_of ''<html>'' (Inl JSONDecodeError)"
         ex_env ex_cfg ex_clock get_models "JStr []" "[]",
         THEN conjunct1, THEN spec, THEN mp, OF j1]
  have r1: "response_part (log_entry ex_env ex_cfg ex_clock get_models (JStr []) []
                    (response_of ''<html>'' (Inl JSONDecodeError)))
              = (JStr ''<html>'', JInt 0, JInt 0)"
    by (simp add: t)
  from log_entry_response_fields [of "response_of ''[]'' (Inr (JArr []))"
         ex_env ex_cfg ex_clock get_models "JStr []" "[]",
         THEN conjunct2, THEN conjunct1, THEN spec, THEN mp, OF j2]
  have r2: "response_part (log_entry ex_env ex_cfg ex_clock get_models (JStr []) []
                    (response_of ''[]'' (Inr (JArr []))))
              = (JStr ''[]'', JInt 0, JInt 0)"
    by (simp add: t)
  from log_entry_response_fields
         [of \<open>response_of ''{"usage": 5}'' (Inr (JObj [(''usage'', JInt 5)]))\<close>
             ex_env ex_cfg ex_clock get_models "JStr []" "[]",
         THEN conjunct2, THEN conjunct2, THEN conjunct1, THEN spec, THEN mp, OF j3]
  have r3: \<open>response_part (log_entry ex_env ex_cfg ex_clock get_models (JStr []) []
                    (response_of ''{"usage": 5}'' (Inr (JObj [(''usage'', JInt 5)]))))
       = (JStr ''{"usage": 5}'', JInt 0, JInt 0)\<close>
    by (simp add: t)
  from log_entry_response_fields [of ex_response ex_env ex_cfg ex_clock "post_of body_blocks"
         "JStr ''m1''" "''ab cd''",
         THEN conjunct2, THEN conjunct2, THEN conjunct2, THEN spec, THEN spec, THEN mp, OF j4]
  have r4: "response_part (log_entry ex_env ex_cfg ex_clock (post_of body_blocks) (JStr ''m1'')
                    ''ab cd'' ex_response)
       = (JStr ''hi'', JInt 12, JInt 3)"
    by (simp only: v)
  from r1 r2 r3 j4 r4 show ?thesis
    by (intro conjI) simp_all
qed

subsection \<open>The prompt preview\<close>

text \<open>
  On a body of the shape the parse expects, the code follows the rule. For a non-empty
  body that parses to an object whose messages are a non-empty list with an object as last
  element: if that element's content is a string, the preview is its first 500 characters
  (so 500 characters for a string of 1000); if it is a list of well-shaped blocks (each an
  object, the text of a text block a string when present), the preview is the text fields
  of the blocks of type "text" joined with a single space, then truncated to 500
  characters; if it is absent, or neither a string nor a list, the preview is empty.
\<close>

lemma prompt_preview_rule:
  assumes "request_body \<noteq> []"
      and "loads ev request_body = Inr (JObj kvs)"
      and "item_or kvs ''messages'' (JArr []) = JArr msgs"
      and "msgs \<noteq> []"
      and "last msgs = JObj m"
  shows "(\<forall>s. item_or m ''content'' (JStr []) = JStr s \<longrightarrow>
            parse_request ev request_body = Inr (item_or kvs ''model'' (JStr []), take 500 s))
       \<and> (\<forall>blocks. item_or m ''content'' (JStr []) = JArr blocks \<and> blocks_ok blocks \<longrightarrow>
            parse_request ev request_body
              = Inr (item_or kvs ''model'' (JStr []), preview_rule blocks))
       \<and> ((\<forall>s. item_or m ''content'' (JStr []) \<noteq> JStr s)
            \<and> (\<forall>blocks. item_or m ''content'' (JStr []) \<noteq> JArr blocks) \<longrightarrow>
            parse_request ev request_body = Inr (item_or kvs ''model'' (JStr []), []))"
proof -
  have rf: "request_fields ev request_body =
     (case item_or m ''content'' (JStr []) of
        JStr s \<Rightarrow> Inr (item_or kvs ''model'' (JStr []), take 500 s)
      | JArr blocks \<Rightarrow>
          (case blocks_preview blocks of
             Inl e \<Rightarrow> Inl e
           | Inr s \<Rightarrow> Inr (item_or kvs ''model'' (JStr []), s))
      | _ \<Rightarrow> Inr (item_or kvs ''model'' (JStr []), []))"
    using assms(2-5)
    by (simp add: request_fields_def py_get_obj del: py_get.simps(1))
  have pr: "parse_request ev request_body =
     (case request_fields ev request_body of
        Inl e \<Rightarrow> if e = JSONDecodeError then Inr (JStr [], []) else Inl e
      | Inr r \<Rightarrow> Inr r)"
    using assms(1) by (simp add: parse_request_def)
  show ?thesis
  proof (intro conjI allI impI)
    fix s assume "item_or m ''content'' (JStr []) = JStr s"
    then show "parse_request ev request_body = Inr (item_or kvs ''model'' (JStr []), take 500 s)"
      by (simp add: pr rf)
  next
    fix blocks assume "item_or m ''content'' (JStr []) = JArr blocks \<and> blocks_ok blocks"
    then show "parse_request ev request_body
                 = Inr (item_or kvs ''model'' (JStr []), preview_rule blocks)"
      by (simp add: pr rf blocks_preview_ok)
  next
    assume "(\<forall>s. item_or m ''content'' (JStr []) \<noteq> JStr s)
            \<and> (\<forall>blocks. item_or m ''content'' (JStr []) \<noteq> JArr blocks)"
    then show "parse_request ev request_body = Inr (item_or kvs ''model'' (JStr []), [])"
      by (cases "item_or m ''content'' (JStr [])") (simp_all add: pr rf)
  qed
qed

lemma prompt_preview_rule_examples:
  "parse_request ex_env body_blocks = Inr (JStr ''m1'', ''ab cd'')
   \<and> parse_request ex_env body_long = Inr (JStr ''m1'', replicate 500 (CHR ''x''))"
proof -
  let ?blocks = "[JObj [(''type'', JStr ''text''), (''text'', JStr ''ab'')],
                  JObj [(''type'', JStr ''image'')],
                  JObj [(''type'', JStr ''text''), (''text'', JStr ''cd'')]]"
  let ?m = "[(''role'', JStr ''user''), (''content'', JArr ?blocks)]"
  let ?kvs = "[(''model'', JStr ''m1''), (''messages'', JArr [JObj ?m])]"
  have a1: "body_blocks \<noteq> []"
    by (simp add: body_blocks_def)
  have a2: "loads ex_env body_blocks = Inr (JObj ?kvs)"
    by code_simp
  have a3: "item_or ?kvs ''messages'' (JArr []) = JArr [JObj ?m]"
    by (simp add: item_or_def)
  have a4: "[JObj ?m] \<noteq> []"
    by simp
  have a5: "last [JObj ?m] = JObj ?m"
    by simp
  have c: "item_or ?m ''content'' (JStr []) = JArr ?blocks \<and> blocks_ok ?blocks"
    by (simp add: item_or_def blocks_ok_def block_ok_def)
  have v: "item_or ?kvs ''model'' (JStr []) = JStr ''m1''" "preview_rule ?blocks = ''ab cd''"
    by code_simp+
  from prompt_preview_rule [OF a1 a2 a3 a4 a5, THEN conjunct2, THEN conjunct1, THEN spec,
         THEN mp, OF c]
  have r1: "parse_request ex_env body_blocks = Inr (JStr ''m1'', ''ab cd'')"
    by (simp only: v)
  let ?lm = "[(''role'', JStr ''user''), (''content'', JStr (replicate 1000 (CHR ''x'')))]"
  let ?lkvs = "[(''model'', JStr ''m1''), (''messages'', JArr [JObj ?lm])]"
  have b1: "body_long \<noteq> []"
    by (simp add: body_long_def)
  have b2: "loads ex_env body_long = Inr (JObj ?lkvs)"
    by code_simp
  have b3: "item_or ?lkvs ''messages'' (JArr []) = JArr [JObj ?lm]"
    by (simp add: item_or_def)
  have b4: "[JObj ?lm] \<noteq> []"
    by simp
  have b5: "last [JObj ?lm] = JObj ?lm"
    by simp
  have d: "item_or ?lm ''content'' (JStr []) = JStr (replicate 1000 (CHR ''x''))"
    by (simp add: item_or_def)
  have w: "item_or ?lkvs ''model'' (JStr []) = JStr ''m1''"
    by (simp add: item_or_def)
  have tk: "take 500 (replicate 1000 (CHR ''x'')) = replicate 500 (CHR ''x'')"
    by simp
  from prompt_preview_rule [OF b1 b2 b3 b4 b5, THEN conjunct1, THEN spec, THEN mp, OF d]
  have r2: "parse_request ex_env body_long = Inr (JStr ''m1'', replicate 500 (CHR ''x''))"
    by (simp only: w tk)
  from r1 r2 show ?thesis
    by (intro conjI)
qed

text \<open>
  C4 does not hold of the code. Where the content list holds something that is not an
  object, the comprehension calls \<^verbatim>\<open>c.get\<close> on it and raises AttributeError, which
  \<^verbatim>\<open>except json.JSONDecodeError\<close> does not catch: there is no preview at all, the
  exception leaves \<^verbatim>\<open>proxy_request\<close> before the upstream call, and the request is
  neither forwarded nor answered. Here the content is a text block "ab" followed by the
  string "cd": the rule of the claim keeps the one block of type "text" and gives "ab",
  and the upstream would have answered.
\<close>

theorem mixed_blocks_leave_no_preview:
  "loads ex_env body_mixed
     = Inr (JObj [(''messages'', JArr [JObj [(''role'', JStr ''user''),
              (''content'', JArr [JObj [(''type'', JStr ''text''), (''text'', JStr ''ab'')],
                                  JStr ''cd''])]])])
   \<and> preview_rule [JObj [(''type'', JStr ''text''), (''text'', JStr ''ab'')], JStr ''cd'']
       = ''ab''
   \<and> parse_request ex_env body_mixed = Inl AttributeError
   \<and> send ex_env (upstream_call ''POST'' (post_of body_mixed) body_mixed) = Inr ex_response
   \<and> fst (do_POST ex_env ex_cfg ex_clock (post_of body_mixed) (world_of body_mixed))
       = Raised AttributeError
   \<and> upstream_calls (snd (do_POST ex_env ex_cfg ex_clock (post_of body_mixed)
         (world_of body_mixed))) = []"
  by code_simp

end
